theory Spec2Isabelle
  imports Complex_Main
begin

section \<open>Common infrastructure\<close>

text \<open>
  A shallow embedding of \<^verbatim>\<open>nitime/timeseries.py\<close>.  Python exceptions are values of
  the type \<open>error\<close>; a function that may raise returns \<open>error + 'a\<close>, with \<open>Inl\<close> the
  exception raised.  \<open>NonFinite\<close> is not a Python exception: numpy divides by zero with
  a warning and stores \<open>inf\<close> or \<open>nan\<close>, values that the real numbers of the model do
  not have, and the model stops there.
\<close>

datatype error =
    ValueError string
  | NameError
  | IndexError
  | KeyError
  | TypeError
  | ZeroDivisionError
  | NonFinite

definition bind_res :: "error + 'a \<Rightarrow> ('a \<Rightarrow> error + 'b) \<Rightarrow> error + 'b" where
  "bind_res m f = (case m of Inl e \<Rightarrow> Inl e | Inr x \<Rightarrow> f x)"

text \<open>
  A Python \<^verbatim>\<open>for x in xs: body\<close> over a state: the iterations run in the order of the
  list, and the first exception leaves the loop.
\<close>

fun for_loop :: "'a list \<Rightarrow> ('a \<Rightarrow> 's \<Rightarrow> error + 's) \<Rightarrow> 's \<Rightarrow> error + 's" where
  "for_loop [] body s = Inr s"
| "for_loop (x # xs) body s =
     (case body x s of Inl e \<Rightarrow> Inl e | Inr s' \<Rightarrow> for_loop xs body s')"

text \<open>
  A three-dimensional array as numpy has it: the shape is part of the value (it is
  defined also when a dimension is 0), the cells are nested lists.  \<open>spectrum[i][j]\<close>
  is the vector of frequency bins of the channel pair \<open>(i, j)\<close>.
\<close>

record 'a ndarray3 =
  shape3 :: "nat \<times> nat \<times> nat"
  cells :: "'a list list list"

definition well_shaped :: "'a ndarray3 \<Rightarrow> bool" where
  "well_shaped A =
     (case shape3 A of (d0, d1, d2) \<Rightarrow>
        length (cells A) = d0 \<and>
        (\<forall>row \<in> set (cells A). length row = d1 \<and> (\<forall>v \<in> set row. length v = d2)))"

definition shape_last :: "'a ndarray3 \<Rightarrow> nat" where
  "shape_last A = snd (snd (shape3 A))"

definition getitem2 :: "'a ndarray3 \<Rightarrow> nat \<Rightarrow> nat \<Rightarrow> error + 'a list" where
  "getitem2 A i j =
     (if i < fst (shape3 A) \<and> j < fst (snd (shape3 A))
      then Inr (cells A ! i ! j) else Inl IndexError)"

text \<open>
  The assignment \<^verbatim>\<open>out[i][j] = v\<close> into a row of \<open>F\<close> bins: numpy broadcasts a vector
  of length 1, stores a vector of length \<open>F\<close> as it is, and raises ValueError for any
  other length.
\<close>

definition fit_bins :: "nat \<Rightarrow> 'a list \<Rightarrow> error + 'a list" where
  "fit_bins F v =
     (if length v = F then Inr v
      else if length v = 1 then Inr (replicate F (v ! 0))
      else Inl (ValueError ''could not broadcast input array''))"

text \<open>
  Name resolution for the integer-valued names of a function body.  A name that is bound
  neither in the frame nor in the module raises NameError when it is evaluated.
\<close>

definition name_lookup :: "(string \<times> nat) list \<Rightarrow> string \<Rightarrow> error + nat" where
  "name_lookup env x = (case map_of env x of None \<Rightarrow> Inl NameError | Some v \<Rightarrow> Inr v)"

section \<open>CoherenceAnalyzer\<close>

type_synonym cvec = "complex list"

subsection \<open>coherence_partial\<close>

text \<open>
  \<^verbatim>\<open>CoherenceAnalyzer.coherence_partial\<close>.  The frame binds \<^verbatim>\<open>tseries_length\<close> and
  \<^verbatim>\<open>spectrum_length\<close>; the innermost loop ranges over \<^verbatim>\<open>xrange(t_series_length)\<close>, a
  name that neither the frame nor the module binds.  The pairwise estimator
  \<^verbatim>\<open>tsa.coherence_partial_calculate\<close> lives in another module and is a parameter.
\<close>

definition coherence_partial ::
  "(cvec \<Rightarrow> cvec \<Rightarrow> cvec \<Rightarrow> cvec \<Rightarrow> cvec \<Rightarrow> cvec \<Rightarrow> cvec) \<Rightarrow> complex ndarray3 \<Rightarrow> nat
     \<Rightarrow> error + cvec list list list" where
  "coherence_partial coherence_partial_calculate spectrum tseries_length =
     (let spectrum_length = shape_last spectrum;
          env = [(''tseries_length'', tseries_length), (''spectrum_length'', spectrum_length)];
          p_coherence = replicate tseries_length (replicate tseries_length
                          (replicate tseries_length (replicate spectrum_length 0)))
      in for_loop [0..<tseries_length] (\<lambda>i.
           for_loop [0..<tseries_length] (\<lambda>j p.
             bind_res (name_lookup env ''t_series_length'') (\<lambda>bound.
               for_loop [0..<bound] (\<lambda>k p.
                 bind_res (getitem2 spectrum i j) (\<lambda>sij.
                 bind_res (getitem2 spectrum i i) (\<lambda>sii.
                 bind_res (getitem2 spectrum j j) (\<lambda>sjj.
                 bind_res (getitem2 spectrum i k) (\<lambda>sik.
                 bind_res (getitem2 spectrum j k) (\<lambda>sjk.
                 bind_res (getitem2 spectrum k k) (\<lambda>skk.
                 bind_res (fit_bins spectrum_length
                             (coherence_partial_calculate sij sii sjj sik sjk skk)) (\<lambda>v.
                   Inr (p[i := (p ! i)[j := (p ! i ! j)[k := v]]]))))))))) p)))
         p_coherence)"


section \<open>Time units\<close>

text \<open>
  The module-level table \<^verbatim>\<open>time_unit_conversion\<close>: a dict from unit names, and from
  \<^verbatim>\<open>None\<close>, to the number of base ticks (picoseconds) of one unit.
\<close>

definition time_unit_conversion :: "string option \<rightharpoonup> int" where
  "time_unit_conversion = map_of
     [(Some ''ps'', 1),
      (Some ''ns'', 10 ^ 3),
      (Some ''us'', 10 ^ 6),
      (Some ''ms'', 10 ^ 9),
      (Some ''s'', 10 ^ 12),
      (None, 10 ^ 12),
      (Some ''m'', 60 * 10 ^ 12),
      (Some ''h'', 3600 * 10 ^ 12),
      (Some ''D'', 24 * 3600 * 10 ^ 12),
      (Some ''W'', 7 * 24 * 3600 * 10 ^ 12)]"


section \<open>Time series\<close>

text \<open>
  An n-dimensional numpy array: its shape and its elements in row-major order.
  \<open>ndim\<close> is the number of dimensions; \<open>len\<close> raises TypeError on a 0-dimensional
  array, and \<open>shape[0]\<close> and \<open>shape[-1]\<close> raise IndexError on the empty shape tuple.
\<close>

record 'a ndarray =
  shape :: "nat list"
  flat :: "'a list"

definition ndim :: "'a ndarray \<Rightarrow> nat" where
  "ndim a = length (shape a)"

definition len :: "'a ndarray \<Rightarrow> error + nat" where
  "len a = (case shape a of [] \<Rightarrow> Inl TypeError | d # _ \<Rightarrow> Inr d)"

definition shape_0 :: "'a ndarray \<Rightarrow> error + nat" where
  "shape_0 a = (case shape a of [] \<Rightarrow> Inl IndexError | d # _ \<Rightarrow> Inr d)"

definition shape_minus1 :: "'a ndarray \<Rightarrow> error + nat" where
  "shape_minus1 a = (case shape a of [] \<Rightarrow> Inl IndexError | d # ds \<Rightarrow> Inr (last (d # ds)))"

text \<open>
  \<^verbatim>\<open>TimeSeriesBase\<close> with the \<^verbatim>\<open>time\<close> attribute that \<^verbatim>\<open>NonUniformTimeSeries\<close> adds.
  \<^verbatim>\<open>metadata\<close> starts as the empty dict.
\<close>

record ('a, 't) NonUniformTimeSeries =
  ts_data :: "'a ndarray"
  ts_time_unit :: "string option"
  ts_metadata :: "string \<rightharpoonup> string"
  ts_time :: "'t ndarray"

text \<open>\<^verbatim>\<open>TimeSeriesBase.__init__\<close>: the unit check, then the attributes.\<close>

definition TimeSeriesBase_init ::
  "'a ndarray \<Rightarrow> string option \<Rightarrow> error + ('a ndarray \<times> string option \<times> (string \<rightharpoonup> string))" where
  "TimeSeriesBase_init data time_unit =
     (if time_unit_conversion time_unit = None then Inl (ValueError ''Invalid time unit'')
      else Inr (data, time_unit, Map.empty))"

text \<open>\<^verbatim>\<open>TimeSeriesBase._validate_dimensionality\<close>.\<close>

definition validate_dimensionality :: "('a, 't) NonUniformTimeSeries \<Rightarrow> error + unit" where
  "validate_dimensionality self =
     (if ndim (ts_time self) \<noteq> 1 then Inl (ValueError ''time array must be one-dimensional'')
      else bind_res (shape_minus1 (ts_data self)) (\<lambda>npoints.
           bind_res (len (ts_time self)) (\<lambda>n.
             if npoints \<noteq> n then Inl (ValueError ''mismatch of time and data dimensions'')
             else Inr ())))"

text \<open>
  \<^verbatim>\<open>NonUniformTimeSeries.__init__\<close>: the common constructor, then
  \<^verbatim>\<open>self.time = np.asarray(time)\<close>.  The body makes no other call.
\<close>

definition NonUniformTimeSeries_init ::
  "'a ndarray \<Rightarrow> 't ndarray \<Rightarrow> string option \<Rightarrow> error + ('a, 't) NonUniformTimeSeries" where
  "NonUniformTimeSeries_init data time time_unit =
     bind_res (TimeSeriesBase_init data time_unit) (\<lambda>(d, u, m).
       Inr \<lparr>ts_data = d, ts_time_unit = u, ts_metadata = m, ts_time = time\<rparr>)"

section \<open>Method descriptors\<close>

text \<open>
  The \<^verbatim>\<open>method\<close> argument of the analyzers is a Python dict, a mutable object that the
  caller and the analyzer may both hold.  The store maps an address to the dict that
  lives there; a variable holds an address.  \<open>next_addr\<close> is the first address not yet
  allocated.
\<close>

datatype pyval = PyStr string | PyNum real

type_synonym pydict = "string \<rightharpoonup> pyval"

record store =
  dicts :: "nat \<Rightarrow> pydict"
  next_addr :: nat

definition new_dict :: "pydict \<Rightarrow> store \<Rightarrow> nat \<times> store" where
  "new_dict d h = (next_addr h, h\<lparr>dicts := (dicts h)(next_addr h := d), next_addr := Suc (next_addr h)\<rparr>)"

definition dict_get :: "pydict \<Rightarrow> string \<Rightarrow> pyval \<Rightarrow> pyval" where
  "dict_get d k dflt = (case d k of None \<Rightarrow> dflt | Some v \<Rightarrow> v)"

definition dict_setitem :: "nat \<Rightarrow> string \<Rightarrow> pyval \<Rightarrow> store \<Rightarrow> store" where
  "dict_setitem a k v h = h\<lparr>dicts := (dicts h)(a := (dicts h a)(k \<mapsto> v))\<rparr>"

text \<open>What the analyzers read from the time series they are built on.\<close>

record 'a time_series =
  data_of :: "'a ndarray"
  sampling_rate_of :: real

record 'a Analyzer =
  an_data :: "'a ndarray"
  an_sampling_rate :: real
  an_method :: nat

text \<open>
  \<^verbatim>\<open>CoherenceAnalyzer.__init__\<close>: with \<^verbatim>\<open>method=None\<close> a new dict is made, otherwise
  \<^verbatim>\<open>self.method = method\<close> binds the caller's object; then
  \<^verbatim>\<open>self.method['Fs'] = self.method.get('Fs', self.sampling_rate)\<close>.
\<close>

definition CoherenceAnalyzer_init ::
  "'a time_series \<Rightarrow> nat option \<Rightarrow> store \<Rightarrow> 'a Analyzer \<times> store" where
  "CoherenceAnalyzer_init ts method h =
     (let (m, h1) = (case method of
                       None \<Rightarrow> new_dict [''this_method'' \<mapsto> PyStr ''mlab''] h
                     | Some a \<Rightarrow> (a, h));
          h2 = dict_setitem m ''Fs'' (dict_get (dicts h1 m) ''Fs'' (PyNum (sampling_rate_of ts))) h1
      in (\<lparr>an_data = data_of ts, an_sampling_rate = sampling_rate_of ts, an_method = m\<rparr>, h2))"

text \<open>
  \<^verbatim>\<open>SparseCoherenceAnalyzer.__init__\<close>, as far as the method descriptor goes:
  \<^verbatim>\<open>self.method['this_method']\<close> raises KeyError when the key is missing, any method
  but \<^verbatim>\<open>'mlab'\<close> raises ValueError, and only then is \<^verbatim>\<open>'Fs'\<close> set.  An exception
  leaves the store as it was at that point.
\<close>

definition SparseCoherenceAnalyzer_init ::
  "'a time_series \<Rightarrow> nat option \<Rightarrow> store \<Rightarrow> (error + 'a Analyzer) \<times> store" where
  "SparseCoherenceAnalyzer_init ts method h =
     (let (m, h1) = (case method of
                       None \<Rightarrow> new_dict [''this_method'' \<mapsto> PyStr ''mlab''] h
                     | Some a \<Rightarrow> (a, h))
      in case dicts h1 m ''this_method'' of
           None \<Rightarrow> (Inl KeyError, h1)
         | Some v \<Rightarrow>
             if v \<noteq> PyStr ''mlab''
             then (Inl (ValueError ''spectral estimation method must be mlab''), h1)
             else
               (let h2 = dict_setitem m ''Fs''
                           (dict_get (dicts h1 m) ''Fs'' (PyNum (sampling_rate_of ts))) h1
                in (Inr \<lparr>an_data = data_of ts, an_sampling_rate = sampling_rate_of ts, an_method = m\<rparr>,
                    h2)))"

text \<open>
  \<^verbatim>\<open>SpectralAnalyzer.__init__\<close>: \<^verbatim>\<open>self.method = method\<close>, and a new empty dict only
  when \<^verbatim>\<open>method is None\<close>.
\<close>

definition SpectralAnalyzer_init ::
  "'a time_series \<Rightarrow> nat option \<Rightarrow> store \<Rightarrow> 'a Analyzer \<times> store" where
  "SpectralAnalyzer_init ts method h =
     (let (m, h1) = (case method of None \<Rightarrow> new_dict Map.empty h | Some a \<Rightarrow> (a, h))
      in (\<lparr>an_data = data_of ts, an_sampling_rate = sampling_rate_of ts, an_method = m\<rparr>, h1))"

text \<open>
  \<^verbatim>\<open>SpectralAnalyzer.spectrum_mlab\<close>: \<^verbatim>\<open>self.mlab_method = self.method\<close> is a second
  name for the same dict, into which \<^verbatim>\<open>'this_method'\<close> and \<^verbatim>\<open>'Fs'\<close> are stored before
  \<^verbatim>\<open>tsa.get_spectra\<close> (a parameter: it lives in another module) is called with it.
\<close>

definition spectrum_mlab ::
  "('a ndarray \<Rightarrow> pydict \<Rightarrow> error + 'r) \<Rightarrow> 'a Analyzer \<Rightarrow> store \<Rightarrow> (error + 'r) \<times> store" where
  "spectrum_mlab get_spectra self h =
     (let mlab_method = an_method self;
          h1 = dict_setitem mlab_method ''this_method'' (PyStr ''mlab'') h;
          h2 = dict_setitem mlab_method ''Fs'' (PyNum (an_sampling_rate self)) h1
      in (get_spectra (an_data self) (dicts h2 mlab_method), h2))"

section \<open>Lazy derived attributes\<close>

text \<open>
  Modelled from the spec: the lazy derived-attribute cache of the analyzers
  (\<^verbatim>\<open>desc.setattr_on_read\<close> and \<^verbatim>\<open>desc.ResetMixin\<close> of \<^verbatim>\<open>nitime/descriptors.py\<close>, a
  module the analyzers import).  The spec describes a cache keyed by the attribute's
  name that holds the computed value once there is one, computes on the first read,
  stays unpopulated when the computation fails, and is emptied by an explicit reset.
  Objects have an identity: a computed value is stored at a new address, and a read
  returns the address.  \<open>calls\<close> counts the invocations of each attribute's computation.
\<close>

record 'v lazy_instance =
  computed :: "string \<rightharpoonup> nat"
  objects :: "nat \<rightharpoonup> 'v"
  next_obj :: nat
  calls :: "string \<Rightarrow> nat"

definition new_instance :: "'v lazy_instance" where
  "new_instance = \<lparr>computed = Map.empty, objects = Map.empty, next_obj = 0, calls = (\<lambda>_. 0)\<rparr>"

definition read_attr ::
  "(string \<Rightarrow> error + 'v) \<Rightarrow> string \<Rightarrow> 'v lazy_instance \<Rightarrow> (error + nat) \<times> 'v lazy_instance" where
  "read_attr compute a s =
     (case computed s a of
        Some r \<Rightarrow> (Inr r, s)
      | None \<Rightarrow>
          (let s1 = s\<lparr>calls := (calls s)(a := Suc (calls s a))\<rparr>
           in case compute a of
                Inl e \<Rightarrow> (Inl e, s1)
              | Inr v \<Rightarrow>
                  (Inr (next_obj s1),
                   s1\<lparr>objects := (objects s1)(next_obj s1 \<mapsto> v),
                      next_obj := Suc (next_obj s1),
                      computed := (computed s1)(a \<mapsto> next_obj s1)\<rparr>)))"

definition reset :: "'v lazy_instance \<Rightarrow> 'v lazy_instance" where
  "reset s = s\<lparr>computed := Map.empty\<rparr>"

section \<open>Frequency\<close>








section \<open>Filtering in the Fourier domain\<close>

text \<open>
  Python indexing of a sequence of length \<open>N\<close>: a negative index counts from the end.
\<close>

definition py_index :: "nat \<Rightarrow> int \<Rightarrow> error + nat" where
  "py_index N i =
     (if 0 \<le> i \<and> i < int N then Inr (nat i)
      else if - int N \<le> i \<and> i < 0 then Inr (nat (int N + i))
      else Inl IndexError)"

fun map_res :: "('a \<Rightarrow> error + 'b) \<Rightarrow> 'a list \<Rightarrow> error + 'b list" where
  "map_res f [] = Inr []"
| "map_res f (x # xs) =
     (case f x of Inl e \<Rightarrow> Inl e
      | Inr y \<Rightarrow> (case map_res f xs of Inl e \<Rightarrow> Inl e | Inr ys \<Rightarrow> Inr (y # ys)))"

text \<open>
  \<^verbatim>\<open>a[..., idx] = v\<close> with an integer index array \<open>idx\<close>: along the last axis, of length
  \<open>N\<close>, every position that \<open>idx\<close> names gets \<open>v\<close>, in every row of the leading axes.
\<close>

definition setitem_last_axis :: "int list \<Rightarrow> 'a \<Rightarrow> 'a ndarray \<Rightarrow> error + 'a ndarray" where
  "setitem_last_axis idx v a =
     bind_res (shape_minus1 a) (\<lambda>N.
     bind_res (map_res (py_index N) idx) (\<lambda>ks.
       Inr (a\<lparr>flat := map (\<lambda>p. if p mod N \<in> set ks then v else flat a ! p)
                         [0..<length (flat a)]\<rparr>)))"

text \<open>
  \<^verbatim>\<open>np.hstack([np.where(freqs<lb)[0], np.where(freqs>ub)[0]])\<close>: the indices of the
  frequencies below the band, then of those above it.
\<close>

definition idx_0 :: "real list \<Rightarrow> real \<Rightarrow> real \<Rightarrow> int list" where
  "idx_0 freqs lb ub =
     map int (filter (\<lambda>k. freqs ! k < lb) [0..<length freqs] @
              filter (\<lambda>k. freqs ! k > ub) [0..<length freqs])"

text \<open>\<^verbatim>\<open>if ub is None: ub = freqs[-1]\<close>.\<close>

definition default_ub :: "real list \<Rightarrow> real option \<Rightarrow> error + real" where
  "default_ub freqs ub =
     (case ub of Some u \<Rightarrow> Inr u
      | None \<Rightarrow> bind_res (py_index (length freqs) (- 1)) (\<lambda>k. Inr (freqs ! k)))"

text \<open>
  The Fourier coefficients that \<^verbatim>\<open>HilbertAnalyzer.__init__\<close> hands to \<^verbatim>\<open>np.fft.ifft\<close>:
  \<^verbatim>\<open>power[...,idx_0] = 0\<close> and then \<^verbatim>\<open>power[...,-1*idx_0] = 0\<close>.  The source's array
  \<^verbatim>\<open>power\<close> is \<open>coeffs\<close> here.
\<close>

definition HilbertAnalyzer_power ::
  "real list \<Rightarrow> real \<Rightarrow> real option \<Rightarrow> complex ndarray \<Rightarrow> error + complex ndarray" where
  "HilbertAnalyzer_power freqs lb ub coeffs =
     bind_res (default_ub freqs ub) (\<lambda>ub.
     bind_res (setitem_last_axis (idx_0 freqs lb ub) 0 coeffs) (\<lambda>coeffs.
       setitem_last_axis (map (\<lambda>i. - 1 * i) (idx_0 freqs lb ub)) 0 coeffs))"

text \<open>
  The coefficients that \<^verbatim>\<open>FilterAnalyzer.filtered_fourier\<close> hands to \<^verbatim>\<open>np.fft.ifft\<close>:
  only \<^verbatim>\<open>power[...,idx_0] = 0\<close>; the second assignment is commented out in the source.
\<close>

definition filtered_fourier_power ::
  "real list \<Rightarrow> real \<Rightarrow> real option \<Rightarrow> complex ndarray \<Rightarrow> error + complex ndarray" where
  "filtered_fourier_power freqs lb ub coeffs =
     bind_res (default_ub freqs ub) (\<lambda>ub.
       setitem_last_axis (idx_0 freqs lb ub) 0 coeffs)"

text \<open>
  The two analyzers.  The transforms \<^verbatim>\<open>np.fft.fft\<close> and \<^verbatim>\<open>np.fft.ifft\<close> and the
  frequency grid \<^verbatim>\<open>tsu.get_freqs\<close> are parameters.  The result is the filtered data:
  the \<^verbatim>\<open>data\<close> attribute of the \<^verbatim>\<open>HilbertAnalyzer\<close>, and the data of the time series
  that \<^verbatim>\<open>filtered_fourier\<close> returns.
\<close>

definition np_real :: "complex ndarray \<Rightarrow> real ndarray" where
  "np_real a = \<lparr>shape = shape a, flat = map Re (flat a)\<rparr>"

definition HilbertAnalyzer_init ::
  "(real ndarray \<Rightarrow> complex ndarray) \<Rightarrow> (complex ndarray \<Rightarrow> complex ndarray) \<Rightarrow>
   (real \<Rightarrow> nat \<Rightarrow> real list) \<Rightarrow> real time_series \<Rightarrow> real \<Rightarrow> real option \<Rightarrow> error + real ndarray" where
  "HilbertAnalyzer_init fft ifft get_freqs ts lb ub =
     bind_res (shape_minus1 (data_of ts)) (\<lambda>N.
     bind_res (HilbertAnalyzer_power (get_freqs (sampling_rate_of ts) N) lb ub (fft (data_of ts))) (\<lambda>coeffs.
       Inr (np_real (ifft coeffs))))"

definition filtered_fourier ::
  "(real ndarray \<Rightarrow> complex ndarray) \<Rightarrow> (complex ndarray \<Rightarrow> complex ndarray) \<Rightarrow>
   (real \<Rightarrow> nat \<Rightarrow> real list) \<Rightarrow> real time_series \<Rightarrow> real \<Rightarrow> real option \<Rightarrow> error + real ndarray" where
  "filtered_fourier fft ifft get_freqs ts lb ub =
     bind_res (shape_minus1 (data_of ts)) (\<lambda>N.
     bind_res (filtered_fourier_power (get_freqs (sampling_rate_of ts) N) lb ub (fft (data_of ts))) (\<lambda>coeffs.
       Inr (np_real (ifft coeffs))))"

section \<open>Mirroring the lower triangle\<close>

text \<open>
  Modelled from the spec: \<^verbatim>\<open>tsu.tril_indices(n, k)\<close>, of \<^verbatim>\<open>nitime/utils.py\<close>, gives the
  row and column indices of the lower triangle of an \<open>n\<close> by \<open>n\<close> matrix; with \<open>k = -1\<close>
  that is the strictly-lower triangle, the pairs \<open>(r, c)\<close> with \<open>c < r\<close>, in row-major
  order.
\<close>

definition tril_indices :: "nat \<Rightarrow> int \<Rightarrow> (nat \<times> nat) list" where
  "tril_indices n k =
     concat (map (\<lambda>r. map (\<lambda>c. (r, c)) (filter (\<lambda>c. int c \<le> int r + k) [0..<n])) [0..<n])"

text \<open>
  \<^verbatim>\<open>X[idx[0],idx[1],...] = cj(X[idx[1],idx[0],...])\<close>: numpy first gathers the whole
  right-hand side from \<open>X\<close> as it is, then stores it cell by cell.
\<close>

definition mirror_lower ::
  "('a list \<Rightarrow> 'a list) \<Rightarrow> nat \<Rightarrow> 'a list list list \<Rightarrow> 'a list list list" where
  "mirror_lower cj n X =
     (let idx = tril_indices n (- 1);
          rhs = map (\<lambda>(r, c). cj (X ! c ! r)) idx
      in fold (\<lambda>((r, c), v) X. X[r := (X ! r)[c := v]]) (zip idx rhs) X)"

section \<open>CorrelationAnalyzer\<close>

text \<open>
  \<open>data[i]\<close> of a two-dimensional array, channels by time points.  The correlation
  primitives want one-dimensional arguments, so data of another dimension is refused.
\<close>

definition getitem_row :: "'a ndarray \<Rightarrow> nat \<Rightarrow> error + 'a list" where
  "getitem_row a i =
     (case shape a of
        [n, T] \<Rightarrow> if i < n then Inr (take T (drop (i * T) (flat a))) else Inl IndexError
      | _ \<Rightarrow> Inl (ValueError ''object of wrong dimension''))"

text \<open>
  \<^verbatim>\<open>np.corrcoef(data)[i, j]\<close>: the covariance of the rows \<open>i\<close> and \<open>j\<close> over the root of
  the product of their variances (the normalisation of the covariance cancels).  For a
  single row \<^verbatim>\<open>np.corrcoef\<close> returns a scalar, which cannot be indexed.
\<close>

definition mean :: "real list \<Rightarrow> real" where
  "mean xs = sum_list xs / of_nat (length xs)"

definition covar :: "real list \<Rightarrow> real list \<Rightarrow> real" where
  "covar xs ys = sum_list (map (\<lambda>(x, y). (x - mean xs) * (y - mean ys)) (zip xs ys))"

definition correlation :: "real ndarray \<Rightarrow> nat \<Rightarrow> nat \<Rightarrow> error + real" where
  "correlation a i j =
     bind_res (getitem_row a i) (\<lambda>xs.
     bind_res (getitem_row a j) (\<lambda>ys.
       if hd (shape a) = 1 then Inl IndexError
       else if covar xs xs * covar ys ys = 0 then Inl NonFinite
       else Inr (covar xs ys / sqrt (covar xs xs * covar ys ys))))"

text \<open>
  Modelled from the spec: \<^verbatim>\<open>tsu.xcorr(x, y)\<close>, of \<^verbatim>\<open>nitime/utils.py\<close>, is the full
  cross-correlation (the source's docstring: \<^verbatim>\<open>np.correlate\<close> with \<^verbatim>\<open>'full'\<close>), of
  length \<open>len(x) + len(y) - 1\<close>; entry \<open>m\<close> is the sum of \<open>x[n + k] * y[n]\<close> at the lag
  \<open>k = m - (len(y) - 1)\<close>, so for two series of \<open>T\<close> points the lag 0 is the centre
  entry, at index \<open>T - 1\<close>.
\<close>

definition xcorr_full :: "real list \<Rightarrow> real list \<Rightarrow> real list" where
  "xcorr_full x y =
     map (\<lambda>m. sum_list (map (\<lambda>n. if length y - 1 \<le> n + m \<and> n + m - (length y - 1) < length x
                                 then x ! (n + m - (length y - 1)) * y ! n else 0)
                          [0..<length y]))
         [0..<length x + length y - 1]"

text \<open>
  \<^verbatim>\<open>CorrelationAnalyzer.xcorr_norm\<close>; the result is the data of the time series it
  returns.  In the loop body \<^verbatim>\<open>xcorr[i,j] /= (xcorr[i,j,t_points])\<close> divides the row by
  its entry at index \<open>t_points\<close>, then \<^verbatim>\<open>xcorr[i,j] *= self.correlation[i,j]\<close>.
\<close>

definition xcorr_norm :: "real ndarray \<Rightarrow> error + real list list list" where
  "xcorr_norm a =
     bind_res (shape_0 a) (\<lambda>tseries_length.
     bind_res (shape_minus1 a) (\<lambda>t_points.
       if t_points * 2 < 1 then Inl (ValueError ''negative dimensions are not allowed'')
       else
         bind_res
           (for_loop [0..<tseries_length] (\<lambda>i.
              for_loop [i..<tseries_length] (\<lambda>j xcorr.
                bind_res (getitem_row a i) (\<lambda>xi.
                bind_res (getitem_row a j) (\<lambda>xj.
                bind_res (fit_bins (t_points * 2 - 1) (xcorr_full xi xj)) (\<lambda>row.
                  if \<not> t_points < length row then Inl IndexError
                  else if row ! t_points = 0 then Inl NonFinite
                  else
                    (let row1 = map (\<lambda>v. v / (row ! t_points)) row
                     in bind_res (correlation a i j) (\<lambda>r.
                          Inr (xcorr[i := (xcorr ! i)[j := map (\<lambda>v. v * r) row1]]))))))))
              (replicate tseries_length (replicate tseries_length
                 (replicate (t_points * 2 - 1) 0))))
           (\<lambda>xcorr. Inr (mirror_lower (\<lambda>v. v) tseries_length xcorr))))"

section \<open>CoherenceAnalyzer: coherence, coherency and phase\<close>

text \<open>
  The pairwise estimators \<^verbatim>\<open>tsa.coherence_calculate\<close>, \<^verbatim>\<open>tsa.coherency_calculate\<close> and
  \<^verbatim>\<open>tsa.coherency_phase_spectrum_calculate\<close> live in another module and are parameters;
  \<open>spectrum\<close> is the value of the cached attribute \<^verbatim>\<open>self.spectrum\<close> and
  \<open>tseries_length\<close> is \<^verbatim>\<open>self.data.shape[0]\<close>.  To count the invocations of the
  estimator, the loops of \<open>coherence\<close> and \<open>coherency\<close> carry, next to the array they
  fill, the list of the index pairs at which the estimator has been called.
\<close>

text \<open>
  \<^verbatim>\<open>CoherenceAnalyzer.coherency\<close>: the array has \<^verbatim>\<open>dtype=complex\<close>, and the lower
  triangle is filled with \<^verbatim>\<open>coherency[idx[1],idx[0],...].conj()\<close>.
\<close>

definition coherency ::
  "(cvec \<Rightarrow> cvec \<Rightarrow> cvec \<Rightarrow> cvec) \<Rightarrow> complex ndarray3 \<Rightarrow> nat
     \<Rightarrow> error + (cvec list list \<times> (nat \<times> nat) list)" where
  "coherency coherency_calculate spectrum tseries_length =
     (let spectrum_length = shape_last spectrum
      in bind_res
           (for_loop [0..<tseries_length] (\<lambda>i.
              for_loop [i..<tseries_length] (\<lambda>j (coherency, calls).
                bind_res (getitem2 spectrum i j) (\<lambda>sij.
                bind_res (getitem2 spectrum i i) (\<lambda>sii.
                bind_res (getitem2 spectrum j j) (\<lambda>sjj.
                bind_res (fit_bins spectrum_length (coherency_calculate sij sii sjj)) (\<lambda>v.
                  Inr (coherency[i := (coherency ! i)[j := v]], calls @ [(i, j)])))))))
              (replicate tseries_length (replicate tseries_length
                 (replicate spectrum_length 0)), []))
           (\<lambda>(coherency, calls).
              Inr (mirror_lower (map cnj) tseries_length coherency, calls)))"

text \<open>
  \<^verbatim>\<open>CoherenceAnalyzer.coherence\<close>: the array is a float array, so storing the
  estimator's complex result keeps its real part, and \<^verbatim>\<open>.conj()\<close> of a float array
  is the array itself.
\<close>

definition np_conj_float :: "real list \<Rightarrow> real list" where
  "np_conj_float v = v"

definition coherence ::
  "(cvec \<Rightarrow> cvec \<Rightarrow> cvec \<Rightarrow> cvec) \<Rightarrow> complex ndarray3 \<Rightarrow> nat
     \<Rightarrow> error + (real list list list \<times> (nat \<times> nat) list)" where
  "coherence coherence_calculate spectrum tseries_length =
     (let spectrum_length = shape_last spectrum
      in bind_res
           (for_loop [0..<tseries_length] (\<lambda>i.
              for_loop [i..<tseries_length] (\<lambda>j (coherence, calls).
                bind_res (getitem2 spectrum i j) (\<lambda>sij.
                bind_res (getitem2 spectrum i i) (\<lambda>sii.
                bind_res (getitem2 spectrum j j) (\<lambda>sjj.
                bind_res (fit_bins spectrum_length (map Re (coherence_calculate sij sii sjj))) (\<lambda>v.
                  Inr (coherence[i := (coherence ! i)[j := v]], calls @ [(i, j)])))))))
              (replicate tseries_length (replicate tseries_length
                 (replicate spectrum_length 0)), []))
           (\<lambda>(coherence, calls).
              Inr (mirror_lower np_conj_float tseries_length coherence, calls)))"

text \<open>
  \<^verbatim>\<open>CoherenceAnalyzer.phase\<close>: in the body of the loop over \<open>i \<le> j\<close>, first
  \<^verbatim>\<open>phase[i][j]\<close> from \<^verbatim>\<open>self.spectrum[i][j]\<close>, then \<^verbatim>\<open>phase[j][i]\<close> from
  \<^verbatim>\<open>self.spectrum[i][j].conjugate()\<close>.
\<close>

definition phase ::
  "(cvec \<Rightarrow> real list) \<Rightarrow> complex ndarray3 \<Rightarrow> nat \<Rightarrow> error + real list list list" where
  "phase coherency_phase_spectrum_calculate spectrum tseries_length =
     (let spectrum_length = shape_last spectrum
      in for_loop [0..<tseries_length] (\<lambda>i.
           for_loop [i..<tseries_length] (\<lambda>j phase.
             bind_res (getitem2 spectrum i j) (\<lambda>sij.
             bind_res (fit_bins spectrum_length (coherency_phase_spectrum_calculate sij)) (\<lambda>v.
             bind_res (getitem2 spectrum i j) (\<lambda>sij'.
             bind_res (fit_bins spectrum_length
                         (coherency_phase_spectrum_calculate (map cnj sij'))) (\<lambda>w.
               Inr ((phase[i := (phase ! i)[j := v]])
                      [j := ((phase[i := (phase ! i)[j := v]]) ! j)[i := w]])))))))
           (replicate tseries_length (replicate tseries_length
              (replicate spectrum_length 0))))"

section \<open>TimeArray and UniformTime\<close>

















section \<open>Notions for the proofs\<close>

text \<open>
  The channel-by-channel arrays that the loops fill are \<open>n\<close> rows of \<open>n\<close> cells (each
  cell a vector of bins); \<open>set2 X i j v\<close> is the array after \<^verbatim>\<open>X[i][j] = v\<close>; and
  \<open>upper_pairs n\<close> lists the index pairs in the order in which the loops
  \<^verbatim>\<open>for i in xrange(n): for j in xrange(i, n)\<close> visit them.
\<close>

definition grid :: "nat \<Rightarrow> 'a list list \<Rightarrow> bool" where
  "grid n X \<longleftrightarrow> length X = n \<and> (\<forall>r<n. length (X ! r) = n)"

definition set2 :: "'a list list \<Rightarrow> nat \<Rightarrow> nat \<Rightarrow> 'a \<Rightarrow> 'a list list" where
  "set2 X i j v = X[i := (X ! i)[j := v]]"

definition upper_pairs :: "nat \<Rightarrow> (nat \<times> nat) list" where
  "upper_pairs n = concat (map (\<lambda>i. map (Pair i) [i..<n]) [0..<n])"


section \<open>Theorems\<close>

subsection \<open>coherence_partial\<close>

text \<open>
  C8.  The claim is that \<open>coherence_partial\<close> returns the full tensor over the index
  cube.  The code does not: with at least one channel, the first evaluation of the
  innermost loop's range raises NameError, whatever the spectrum and the estimator are.
\<close>

theorem coherence_partial_raises_NameError:
  "coherence_partial coherence_partial_calculate spectrum (Suc n) = Inl NameError"
proof -
  have first: "[0..<Suc n] = 0 # [Suc 0..<Suc n]"
    by (rule upt_conv_Cons) simp
  show ?thesis
    unfolding coherence_partial_def Let_def first
    by (simp add: name_lookup_def bind_res_def)
qed

subsection \<open>Dimension validation\<close>

text \<open>
  C4.  The claim is that a time series whose time axis does not fit the data cannot be
  constructed.  \<open>NonUniformTimeSeries.__init__\<close> never calls
  \<open>_validate_dimensionality\<close>: data of three points with a time axis of two points
  constructs an object, and the validation that would have refused it raises only when
  it is called on the finished object.
\<close>

theorem NonUniformTimeSeries_init_unvalidated:
  "NonUniformTimeSeries_init \<lparr>shape = [3], flat = [1, 2, 3 :: real]\<rparr>
       \<lparr>shape = [2], flat = [0, 1 :: real]\<rparr> (Some ''s'')
     = Inr \<lparr>ts_data = \<lparr>shape = [3], flat = [1, 2, 3]\<rparr>, ts_time_unit = Some ''s'',
            ts_metadata = Map.empty, ts_time = \<lparr>shape = [2], flat = [0, 1]\<rparr>\<rparr>
   \<and> validate_dimensionality
       \<lparr>ts_data = \<lparr>shape = [3], flat = [1, 2, 3 :: real]\<rparr>, ts_time_unit = Some ''s'',
        ts_metadata = Map.empty, ts_time = \<lparr>shape = [2], flat = [0, 1 :: real]\<rparr>\<rparr>
     = Inl (ValueError ''mismatch of time and data dimensions'')"
  by (simp add: NonUniformTimeSeries_init_def TimeSeriesBase_init_def time_unit_conversion_def
      validate_dimensionality_def ndim_def shape_minus1_def len_def bind_res_def)

subsection \<open>The method descriptor is shared\<close>

text \<open>
  C10.  A caller holds a method dict at address \<open>a\<close>.  When the dict has no \<open>'Fs'\<close>
  entry, \<open>CoherenceAnalyzer(ts, method)\<close> returns an analyzer whose method is that same
  address, and the dict there has gained \<open>'Fs'\<close>, the sampling rate; so does
  \<open>SparseCoherenceAnalyzer(ts, ij, method)\<close> when the dict's \<open>'this_method'\<close> is
  \<open>'mlab'\<close>, and for any other dict that constructor raises and leaves the dict as it
  was.  The first read of \<open>SpectralAnalyzer(ts, method).spectrum_mlab\<close> stores
  \<open>'this_method'\<close> and \<open>'Fs'\<close> into the caller's dict, whatever it held.  Nothing else in
  the store changes.
\<close>

theorem method_dict_mutated_in_place:
  "(dicts h a ''Fs'' = None \<longrightarrow>
      CoherenceAnalyzer_init ts (Some a) h =
        (\<lparr>an_data = data_of ts, an_sampling_rate = sampling_rate_of ts, an_method = a\<rparr>,
         h\<lparr>dicts := (dicts h)(a := (dicts h a)(''Fs'' \<mapsto> PyNum (sampling_rate_of ts)))\<rparr>)
      \<and> (dicts h a ''this_method'' = Some (PyStr ''mlab'') \<longrightarrow>
           SparseCoherenceAnalyzer_init ts (Some a) h =
             (Inr \<lparr>an_data = data_of ts, an_sampling_rate = sampling_rate_of ts, an_method = a\<rparr>,
              h\<lparr>dicts := (dicts h)(a := (dicts h a)(''Fs'' \<mapsto> PyNum (sampling_rate_of ts)))\<rparr>)))
   \<and> (dicts h a ''this_method'' \<noteq> Some (PyStr ''mlab'') \<longrightarrow>
        (\<exists>e. SparseCoherenceAnalyzer_init ts (Some a) h = (Inl e, h)))
   \<and> (case SpectralAnalyzer_init ts (Some a) h of
        (self, h1) \<Rightarrow>
          an_method self = a \<and> h1 = h \<and>
          snd (spectrum_mlab get_spectra self h1) =
            h\<lparr>dicts := (dicts h)(a := (dicts h a)(''this_method'' \<mapsto> PyStr ''mlab'',
                                                   ''Fs'' \<mapsto> PyNum (sampling_rate_of ts)))\<rparr>)"
  by (auto simp: CoherenceAnalyzer_init_def SparseCoherenceAnalyzer_init_def
      SpectralAnalyzer_init_def spectrum_mlab_def dict_setitem_def dict_get_def
      split: option.splits)

theorem method_dict_mutated_in_place_witness:
  "dicts \<lparr>dicts = (\<lambda>_. Map.empty)(0 := [''this_method'' \<mapsto> PyStr ''mlab'']), next_addr = 1\<rparr> 0 ''Fs''
     = None
   \<and> dicts (snd (CoherenceAnalyzer_init
        \<lparr>data_of = \<lparr>shape = [1, 2], flat = [1, 2 :: real]\<rparr>, sampling_rate_of = 2\<rparr> (Some 0)
        \<lparr>dicts = (\<lambda>_. Map.empty)(0 := [''this_method'' \<mapsto> PyStr ''mlab'']), next_addr = 1\<rparr>))
      0 ''Fs'' = Some (PyNum 2)
   \<and> dicts (snd (SparseCoherenceAnalyzer_init
        \<lparr>data_of = \<lparr>shape = [1, 2], flat = [1, 2 :: real]\<rparr>, sampling_rate_of = 2\<rparr> (Some 0)
        \<lparr>dicts = (\<lambda>_. Map.empty)(0 := [''this_method'' \<mapsto> PyStr ''mlab'']), next_addr = 1\<rparr>))
      0 ''Fs'' = Some (PyNum 2)"
proof -
  let ?h = "\<lparr>dicts = (\<lambda>_. Map.empty)(0 := [''this_method'' \<mapsto> PyStr ''mlab'']), next_addr = 1\<rparr>"
  let ?ts = "\<lparr>data_of = \<lparr>shape = [1, 2], flat = [1, 2 :: real]\<rparr>, sampling_rate_of = 2\<rparr>"
  have no_Fs: "dicts ?h 0 ''Fs'' = None"
    by simp
  have mlab: "dicts ?h 0 ''this_method'' = Some (PyStr ''mlab'')"
    by simp
  note shared = method_dict_mutated_in_place [of ?h 0 ?ts]
  have dense: "CoherenceAnalyzer_init ?ts (Some 0) ?h =
      (\<lparr>an_data = data_of ?ts, an_sampling_rate = sampling_rate_of ?ts, an_method = 0\<rparr>,
       ?h\<lparr>dicts := (dicts ?h)(0 := (dicts ?h 0)(''Fs'' \<mapsto> PyNum (sampling_rate_of ?ts)))\<rparr>)"
    using shared no_Fs by blast
  have sparse: "SparseCoherenceAnalyzer_init ?ts (Some 0) ?h =
      (Inr \<lparr>an_data = data_of ?ts, an_sampling_rate = sampling_rate_of ?ts, an_method = 0\<rparr>,
       ?h\<lparr>dicts := (dicts ?h)(0 := (dicts ?h 0)(''Fs'' \<mapsto> PyNum (sampling_rate_of ?ts)))\<rparr>)"
    using shared no_Fs mlab by blast
  show ?thesis
    unfolding dense sparse by simp
qed

subsection \<open>Lazy derived attributes\<close>

text \<open>
  C5.  A read that returns an object leaves the attribute cached: the next read, with no
  reset in between, returns the same address and leaves the instance (so also the call
  count) as it is; one read invokes the computation at most once.  After a reset the
  next read invokes the computation again, exactly once: on a new instance the count is
  1 after the first read and 2 after a reset and another read.  (A read whose
  computation raises returns no object and caches nothing, as the spec says of a failed
  computation; the first statement is about reads that return.)
\<close>

theorem lazy_attribute_cached_until_reset:
  "(fst (read_attr compute a s) = Inr r \<longrightarrow>
      read_attr compute a (snd (read_attr compute a s)) = (Inr r, snd (read_attr compute a s)))
   \<and> calls (snd (read_attr compute a s)) a \<le> Suc (calls s a)
   \<and> calls (snd (read_attr compute a (reset s))) a = Suc (calls s a)
   \<and> calls (snd (read_attr compute a new_instance)) a = 1
   \<and> calls (snd (read_attr compute a (reset (snd (read_attr compute a new_instance))))) a = 2"
  by (auto simp: read_attr_def reset_def new_instance_def Let_def split: option.splits sum.splits)

theorem lazy_attribute_cached_until_reset_witness:
  "fst (read_attr (\<lambda>_. Inr (7 :: nat)) ''spectrum'' new_instance) = Inr 0
   \<and> read_attr (\<lambda>_. Inr (7 :: nat)) ''spectrum''
        (snd (read_attr (\<lambda>_. Inr (7 :: nat)) ''spectrum'' new_instance))
      = (Inr 0, snd (read_attr (\<lambda>_. Inr (7 :: nat)) ''spectrum'' new_instance))"
  using lazy_attribute_cached_until_reset
    [of "\<lambda>_. Inr (7 :: nat)" "''spectrum''" new_instance 0]
  by (simp add: read_attr_def new_instance_def Let_def)

subsection \<open>Frequency.to_period\<close>





subsection \<open>Filtering in the Fourier domain\<close>

text \<open>
  C9.  Four samples, frequency grid \<open>[0, 1, 2]\<close>, band from 1.5 up: the coefficients to
  clear are those of the frequencies 0 and 1, at the indices 0 and 1, and the mirror of
  index 1 is index 3.  \<open>HilbertAnalyzer\<close> clears the indices 0, 1 and 3;
  \<open>FilterAnalyzer.filtered_fourier\<close> clears 0 and 1 and leaves the coefficient of the
  negative frequency at index 3 in place.
\<close>

theorem filtered_fourier_keeps_negative_frequencies:
  "filtered_fourier_power [0, 1, 2] (3 / 2) None \<lparr>shape = [4], flat = [1, 1, 1, 1]\<rparr>
     = Inr \<lparr>shape = [4], flat = [0, 0, 1, 1]\<rparr>
   \<and> HilbertAnalyzer_power [0, 1, 2] (3 / 2) None \<lparr>shape = [4], flat = [1, 1, 1, 1]\<rparr>
     = Inr \<lparr>shape = [4], flat = [0, 0, 1, 0]\<rparr>"
  by (simp add: filtered_fourier_power_def HilbertAnalyzer_power_def default_ub_def
      setitem_last_axis_def idx_0_def py_index_def shape_minus1_def bind_res_def upt_rec)

subsection \<open>Normalized cross-correlation\<close>

lemma upt_small:
  "[0..<2::nat] = [0, 1]" "[1..<2::nat] = [1]" "[Suc 0..<2::nat] = [1]"
  by (simp_all add: upt_rec)

lemma replicate_small:
  "replicate 2 x = [x, x]" "replicate 5 x = [x, x, x, x, x]"
  by (simp_all add: eval_nat_numeral)

lemma tril_indices_2: "tril_indices 2 (- 1) = [(1, 0)]"
  by (simp add: tril_indices_def upt_small)

lemma two_channels_rows:
  "getitem_row \<lparr>shape = [2, 3], flat = [1, 2, 3, 1, 3, 2 :: real]\<rparr> 0 = Inr [1, 2, 3]"
  "getitem_row \<lparr>shape = [2, 3], flat = [1, 2, 3, 1, 3, 2 :: real]\<rparr> (Suc 0) = Inr [1, 3, 2]"
  by (simp_all add: getitem_row_def)

lemma two_channels_xcorr_full:
  "xcorr_full [1, 2, 3] [1, 2, 3] = [3, 8, 14, 8, 3]"
  "xcorr_full [1, 2, 3] [1, 3, 2] = [2, 7, 13, 11, 3]"
  "xcorr_full [1, 3, 2] [1, 3, 2] = [2, 9, 14, 9, 2]"
  by (simp_all add: xcorr_full_def upt_rec)

lemma two_channels_covar:
  "covar [1, 2, 3] [1, 2, 3] = 2" "covar [1, 2, 3] [1, 3, 2] = 1" "covar [1, 3, 2] [1, 3, 2] = 2"
  by (simp_all add: covar_def mean_def)

lemma two_channels_correlation:
  "correlation \<lparr>shape = [2, 3], flat = [1, 2, 3, 1, 3, 2 :: real]\<rparr> 0 0 = Inr 1"
  "correlation \<lparr>shape = [2, 3], flat = [1, 2, 3, 1, 3, 2 :: real]\<rparr> 0 (Suc 0) = Inr (1 / 2)"
  "correlation \<lparr>shape = [2, 3], flat = [1, 2, 3, 1, 3, 2 :: real]\<rparr> (Suc 0) (Suc 0) = Inr 1"
  by (simp_all add: correlation_def two_channels_rows two_channels_covar bind_res_def)

text \<open>
  C3.  Two channels of three time points, \<open>[1, 2, 3]\<close> and \<open>[1, 3, 2]\<close>.  Their Pearson
  coefficients are 1 on the diagonal and 1/2 across.  The rows of \<open>xcorr_norm\<close> have five
  entries, the lag 0 at index 2; the code divides each row by its entry at index
  \<open>t_points = 3\<close>, the lag 1.  So it is the entry at index 3 that equals the Pearson
  coefficient, and the entry at lag 0 is 7/4 and 14/9 for the two channels with
  themselves, and 13/22 for the pair.
\<close>

theorem xcorr_norm_zero_lag_not_pearson:
  "xcorr_norm \<lparr>shape = [2, 3], flat = [1, 2, 3, 1, 3, 2]\<rparr> =
     Inr [[[3 / 8, 1, 7 / 4, 1, 3 / 8], [1 / 11, 7 / 22, 13 / 22, 1 / 2, 3 / 22]],
          [[1 / 11, 7 / 22, 13 / 22, 1 / 2, 3 / 22], [2 / 9, 1, 14 / 9, 1, 2 / 9]]]
   \<and> correlation \<lparr>shape = [2, 3], flat = [1, 2, 3, 1, 3, 2]\<rparr> 0 0 = Inr 1
   \<and> correlation \<lparr>shape = [2, 3], flat = [1, 2, 3, 1, 3, 2]\<rparr> 0 1 = Inr (1 / 2)
   \<and> correlation \<lparr>shape = [2, 3], flat = [1, 2, 3, 1, 3, 2]\<rparr> 1 1 = Inr 1"
  by (simp add: xcorr_norm_def shape_0_def shape_minus1_def bind_res_def two_channels_rows
      two_channels_xcorr_full two_channels_correlation fit_bins_def upt_small replicate_small
      mirror_lower_def tril_indices_2)


subsection \<open>Loops over the upper triangle\<close>

lemma for_loop_all_Inr:
  "(\<And>x s. x \<in> set xs \<Longrightarrow> body x s = Inr (g x s)) \<Longrightarrow> for_loop xs body s = Inr (fold g xs s)"
  by (induction xs arbitrary: s) simp_all

lemma fold_nested_pairs:
  "fold (\<lambda>i. fold (h i) (js i)) is s
     = fold (\<lambda>(i, j). h i j) (concat (map (\<lambda>i. map (Pair i) (js i)) is)) s"
  by (induction "is" arbitrary: s) (simp_all add: fold_map comp_def)

lemma nth_list_update_any:
  "xs[i := x] ! j = (if i = j \<and> i < length xs then x else xs ! j)"
  by (cases "i < length xs") (auto simp: nth_list_update list_update_beyond)

lemma grid_replicate: "grid n (replicate n (replicate n x))"
  by (simp add: grid_def)

lemma grid_set2: "grid n X \<Longrightarrow> grid n (set2 X i j v)"
  by (auto simp: grid_def set2_def nth_list_update_any)

lemma nth_set2:
  "grid n X \<Longrightarrow> i < n \<Longrightarrow> j < n \<Longrightarrow> r < n \<Longrightarrow> c < n \<Longrightarrow>
     set2 X i j v ! r ! c = (if r = i \<and> c = j then v else X ! r ! c)"
  by (auto simp: grid_def set2_def nth_list_update_any)

lemma fold_logged:
  "fold (\<lambda>(i, j) (X, cs). (set2 X i j (v i j), cs @ [(i, j)])) ps (X, cl)
     = (fold (\<lambda>(i, j) X. set2 X i j (v i j)) ps X, cl @ ps)"
  by (induction ps arbitrary: X cl) auto

lemma grid_fold_set2:
  "grid n X \<Longrightarrow> grid n (fold (\<lambda>(i, j) X. set2 X i j (v i j)) ps X)"
  by (induction ps arbitrary: X) (auto simp: grid_set2)

lemma nth_fold_set2:
  "grid n X \<Longrightarrow> (\<forall>(i, j) \<in> set ps. i < n \<and> j < n) \<Longrightarrow> r < n \<Longrightarrow> c < n \<Longrightarrow>
     fold (\<lambda>(i, j) X. set2 X i j (v i j)) ps X ! r ! c
       = (if (r, c) \<in> set ps then v r c else X ! r ! c)"
proof (induction ps arbitrary: X)
  case Nil
  then show ?case by simp
next
  case (Cons p ps)
  obtain i j where p: "p = (i, j)" by (cases p)
  with Cons.prems have ij: "i < n" "j < n" by auto
  have g: "grid n (set2 X i j (v i j))" using Cons.prems(1) by (rule grid_set2)
  from Cons.prems have rest: "\<forall>(i, j) \<in> set ps. i < n \<and> j < n" by simp
  have "fold (\<lambda>(i, j) X. set2 X i j (v i j)) (p # ps) X ! r ! c
      = fold (\<lambda>(i, j) X. set2 X i j (v i j)) ps (set2 X i j (v i j)) ! r ! c"
    by (simp add: p)
  also have "\<dots> = (if (r, c) \<in> set ps then v r c else set2 X i j (v i j) ! r ! c)"
    using Cons.IH [OF g rest Cons.prems(3) Cons.prems(4)] .
  also have "\<dots> = (if (r, c) \<in> set (p # ps) then v r c else X ! r ! c)"
    using nth_set2 [OF Cons.prems(1) ij Cons.prems(3) Cons.prems(4)] by (auto simp: p)
  finally show ?case .
qed

lemma set_upper_pairs: "set (upper_pairs n) = {(i, j). i \<le> j \<and> j < n}"
  by (fastforce simp: upper_pairs_def)

lemma length_upper_pairs: "length (upper_pairs n) = n * (n + 1) div 2"
proof -
  have "length (upper_pairs n) = (\<Sum>i<n. n - i)"
    by (simp add: upper_pairs_def length_concat comp_def interv_sum_list_conv_sum_set_nat atLeast0LessThan)
  also have "\<dots> = (\<Sum>i<n. Suc (n - Suc i))"
    by (rule sum.cong) auto
  also have "\<dots> = (\<Sum>i<n. Suc i)"
    by (rule sum.nat_diff_reindex)
  also have "\<dots> = n * (n + 1) div 2"
    by (induction n) auto
  finally show ?thesis .
qed

lemma set_tril_indices: "set (tril_indices n (- 1)) = {(r, c). c < r \<and> r < n}"
  by (auto simp: tril_indices_def)

lemma zip_map_same: "zip xs (map f xs) = map (\<lambda>x. (x, f x)) xs"
  by (induction xs) simp_all

lemma nth_mirror_lower:
  assumes "grid n X" "r < n" "c < n"
  shows "mirror_lower cj n X ! r ! c = (if c < r then cj (X ! c ! r) else X ! r ! c)"
proof -
  let ?idx = "tril_indices n (- 1)"
  have z: "zip ?idx (map (\<lambda>(r, c). cj (X ! c ! r)) ?idx) = map (\<lambda>p. (p, case p of (r, c) \<Rightarrow> cj (X ! c ! r))) ?idx"
    by (rule zip_map_same)
  have "mirror_lower cj n X =
      fold (\<lambda>((r, c), v) Y. Y[r := (Y ! r)[c := v]])
        (map (\<lambda>p. (p, case p of (r, c) \<Rightarrow> cj (X ! c ! r))) ?idx) X"
    unfolding mirror_lower_def Let_def z ..
  also have "\<dots> = fold (\<lambda>(r, c) Y. set2 Y r c (cj (X ! c ! r))) ?idx X"
    by (simp add: fold_map comp_def set2_def case_prod_unfold)
  finally have "mirror_lower cj n X = fold (\<lambda>(r, c) Y. set2 Y r c (cj (X ! c ! r))) ?idx X" .
  moreover have "\<forall>(i, j) \<in> set ?idx. i < n \<and> j < n"
    by (auto simp: set_tril_indices)
  ultimately show ?thesis
    using nth_fold_set2 [OF assms(1) _ assms(2) assms(3), of ?idx "\<lambda>r c. cj (X ! c ! r)"]
    by (simp add: set_tril_indices assms)
qed

lemma well_shaped_nth:
  assumes "well_shaped S" "shape3 S = (n, m, F)" "i < n" "j < m"
  shows "length (cells S ! i ! j) = F"
proof -
  from assms have rows: "length (cells S) = n"
    and all: "\<forall>row \<in> set (cells S). length row = m \<and> (\<forall>v \<in> set row. length v = F)"
    by (simp_all add: well_shaped_def)
  from rows assms(3) have row: "cells S ! i \<in> set (cells S)"
    by simp
  with all assms(4) have "cells S ! i ! j \<in> set (cells S ! i)"
    by simp
  with all row show ?thesis
    by blast
qed

lemma getitem2_in_range:
  "shape3 S = (n, m, F) \<Longrightarrow> i < n \<Longrightarrow> j < m \<Longrightarrow> getitem2 S i j = Inr (cells S ! i ! j)"
  by (simp add: getitem2_def)

lemma fit_bins_same: "length v = F \<Longrightarrow> fit_bins F v = Inr v"
  by (simp add: fit_bins_def)

lemma upper_loop:
  assumes "\<And>i j X cl. i \<le> j \<Longrightarrow> j < n \<Longrightarrow>
             body i j (X, cl) = Inr (set2 X i j (v i j), cl @ [(i, j)])"
  shows "for_loop [0..<n] (\<lambda>i. for_loop [i..<n] (body i)) (X, cl)
           = Inr (fold (\<lambda>(i, j) X. set2 X i j (v i j)) (upper_pairs n) X, cl @ upper_pairs n)"
proof -
  let ?g = "\<lambda>i j (X, cs). (set2 X i j (v i j), cs @ [(i, j)])"
  have inner: "for_loop [i..<n] (body i) s = Inr (fold (?g i) [i..<n] s)" for i s
    by (rule for_loop_all_Inr) (use assms in \<open>auto split: prod.splits\<close>)
  have "for_loop [0..<n] (\<lambda>i. for_loop [i..<n] (body i)) (X, cl)
          = Inr (fold (\<lambda>i. fold (?g i) [i..<n]) [0..<n] (X, cl))"
    by (rule for_loop_all_Inr) (rule inner)
  also have "fold (\<lambda>i. fold (?g i) [i..<n]) [0..<n] (X, cl)
          = fold (\<lambda>(i, j). ?g i j) (upper_pairs n) (X, cl)"
    unfolding upper_pairs_def by (rule fold_nested_pairs)
  also have "\<dots> = (fold (\<lambda>(i, j) X. set2 X i j (v i j)) (upper_pairs n) X, cl @ upper_pairs n)"
    by (rule fold_logged)
  finally show ?thesis .
qed

lemma coherency_eq:
  assumes ws: "well_shaped S" and sh: "shape3 S = (n, n, F)"
    and len: "\<forall>x a b. length (est x a b) = length x"
  shows "coherency est S n =
           Inr (mirror_lower (map cnj) n
                  (fold (\<lambda>(i, j) X. set2 X i j (est (cells S ! i ! j) (cells S ! i ! i) (cells S ! j ! j)))
                     (upper_pairs n) (replicate n (replicate n (replicate F 0)))),
                upper_pairs n)"
proof -
  have F: "shape_last S = F"
    using sh by (simp add: shape_last_def)
  have body: "(\<lambda>(X, cs).
          bind_res (getitem2 S i j) (\<lambda>sij.
          bind_res (getitem2 S i i) (\<lambda>sii.
          bind_res (getitem2 S j j) (\<lambda>sjj.
          bind_res (fit_bins F (est sij sii sjj)) (\<lambda>v.
            Inr (X[i := (X ! i)[j := v]], cs @ [(i, j)])))))) (X, cl)
        = Inr (set2 X i j (est (cells S ! i ! j) (cells S ! i ! i) (cells S ! j ! j)), cl @ [(i, j)])"
    if "i \<le> j" "j < n" for i j X cl
  proof -
    from that have i: "i < n" by simp
    have "length (est (cells S ! i ! j) (cells S ! i ! i) (cells S ! j ! j)) = F"
      using len well_shaped_nth [OF ws sh i that(2)] by simp
    then show ?thesis
      using getitem2_in_range [OF sh i that(2)] getitem2_in_range [OF sh i i]
        getitem2_in_range [OF sh that(2) that(2)]
      by (simp add: bind_res_def fit_bins_same set2_def)
  qed
  show ?thesis
    unfolding coherency_def Let_def F
    by (subst upper_loop [where v = "\<lambda>i j. est (cells S ! i ! j) (cells S ! i ! i) (cells S ! j ! j)"])
       (use body in \<open>simp_all add: bind_res_def\<close>)
qed

lemma coherence_eq:
  assumes ws: "well_shaped S" and sh: "shape3 S = (n, n, F)"
    and len: "\<forall>x a b. length (est x a b) = length x"
  shows "coherence est S n =
           Inr (mirror_lower np_conj_float n
                  (fold (\<lambda>(i, j) X. set2 X i j
                           (map Re (est (cells S ! i ! j) (cells S ! i ! i) (cells S ! j ! j))))
                     (upper_pairs n) (replicate n (replicate n (replicate F 0)))),
                upper_pairs n)"
proof -
  have F: "shape_last S = F"
    using sh by (simp add: shape_last_def)
  have body: "(\<lambda>(X, cs).
          bind_res (getitem2 S i j) (\<lambda>sij.
          bind_res (getitem2 S i i) (\<lambda>sii.
          bind_res (getitem2 S j j) (\<lambda>sjj.
          bind_res (fit_bins F (map Re (est sij sii sjj))) (\<lambda>v.
            Inr (X[i := (X ! i)[j := v]], cs @ [(i, j)])))))) (X, cl)
        = Inr (set2 X i j (map Re (est (cells S ! i ! j) (cells S ! i ! i) (cells S ! j ! j))),
               cl @ [(i, j)])"
    if "i \<le> j" "j < n" for i j X cl
  proof -
    from that have i: "i < n" by simp
    have "length (map Re (est (cells S ! i ! j) (cells S ! i ! i) (cells S ! j ! j))) = F"
      using len well_shaped_nth [OF ws sh i that(2)] by simp
    then show ?thesis
      using getitem2_in_range [OF sh i that(2)] getitem2_in_range [OF sh i i]
        getitem2_in_range [OF sh that(2) that(2)]
      by (simp add: bind_res_def fit_bins_same set2_def)
  qed
  show ?thesis
    unfolding coherence_def Let_def F
    by (subst upper_loop [where v = "\<lambda>i j. map Re (est (cells S ! i ! j) (cells S ! i ! i) (cells S ! j ! j))"])
       (use body in \<open>simp_all add: bind_res_def\<close>)
qed

lemma grid_fold_set2_twice:
  "grid n X \<Longrightarrow> grid n (fold (\<lambda>(i, j) X. set2 (set2 X i j (v i j)) j i (w i j)) ps X)"
  by (induction ps arbitrary: X) (auto simp: grid_set2)

lemma nth_fold_set2_twice:
  "grid n X \<Longrightarrow> (\<forall>(i, j) \<in> set ps. i \<le> j \<and> j < n) \<Longrightarrow> r < n \<Longrightarrow> c < n \<Longrightarrow>
     fold (\<lambda>(i, j) X. set2 (set2 X i j (v i j)) j i (w i j)) ps X ! r ! c
       = (if (min r c, max r c) \<in> set ps then (if r < c then v r c else w c r) else X ! r ! c)"
proof (induction ps arbitrary: X)
  case Nil
  then show ?case by simp
next
  case (Cons p ps)
  obtain i j where p: "p = (i, j)" by (cases p)
  with Cons.prems have ij: "i \<le> j" "j < n" "i < n" by auto
  let ?X1 = "set2 (set2 X i j (v i j)) j i (w i j)"
  have g0: "grid n (set2 X i j (v i j))" using Cons.prems(1) by (rule grid_set2)
  then have g: "grid n ?X1" by (rule grid_set2)
  from Cons.prems have rest: "\<forall>(i, j) \<in> set ps. i \<le> j \<and> j < n" by simp
  have step: "?X1 ! r ! c = (if r = j \<and> c = i then w i j else if r = i \<and> c = j then v i j else X ! r ! c)"
    by (simp only: nth_set2 [OF g0 ij(2) ij(3) Cons.prems(3) Cons.prems(4)]
      nth_set2 [OF Cons.prems(1) ij(3) ij(2) Cons.prems(3) Cons.prems(4)])
  have "fold (\<lambda>(i, j) X. set2 (set2 X i j (v i j)) j i (w i j)) (p # ps) X ! r ! c
      = fold (\<lambda>(i, j) X. set2 (set2 X i j (v i j)) j i (w i j)) ps ?X1 ! r ! c"
    by (simp add: p)
  also have "\<dots> = (if (min r c, max r c) \<in> set ps then (if r < c then v r c else w c r) else ?X1 ! r ! c)"
    using Cons.IH [OF g rest Cons.prems(3) Cons.prems(4)] .
  also have "\<dots> = (if (min r c, max r c) \<in> set (p # ps) then (if r < c then v r c else w c r) else X ! r ! c)"
  proof (cases "(min r c, max r c) \<in> set ps")
    case True
    then show ?thesis by simp
  next
    case False
    show ?thesis
    proof (cases "(min r c, max r c) = (i, j)")
      case True
      then have "(r = i \<and> c = j \<and> r < c) \<or> (r = j \<and> c = i \<and> \<not> r < c)"
        by (auto simp: min_def max_def split: if_splits)
      then have "(if r = j \<and> c = i then w i j else if r = i \<and> c = j then v i j else X ! r ! c)
          = (if r < c then v r c else w c r)"
        by (elim disjE conjE) simp_all
      then have eq: "?X1 ! r ! c = (if r < c then v r c else w c r)"
        by (simp only: step)
      from True have "(min r c, max r c) \<in> set (p # ps)"
        by (simp add: p)
      with False eq show ?thesis
        by (simp only: if_P if_not_P if_False)
    next
      case neq: False
      with ij have "(r = j \<and> c = i) = False" "(r = i \<and> c = j) = False"
        by (auto simp: min_def max_def split: if_splits)
      then have "(if r = j \<and> c = i then w i j else if r = i \<and> c = j then v i j else X ! r ! c)
          = X ! r ! c"
        by (simp only: if_False)
      then have eq: "?X1 ! r ! c = X ! r ! c"
        by (simp only: step)
      from neq False have "(min r c, max r c) \<notin> set (p # ps)"
        by (simp add: p)
      with False eq show ?thesis
        by (simp only: if_not_P if_False)
    qed
  qed
  finally show ?case .
qed

lemma phase_eq:
  assumes ws: "well_shaped S" and sh: "shape3 S = (n, n, F)"
    and len: "\<forall>x. length (calc x) = length x"
  shows "phase calc S n =
           Inr (fold (\<lambda>(i, j) X. set2 (set2 X i j (calc (cells S ! i ! j))) j i
                                   (calc (map cnj (cells S ! i ! j))))
                  (upper_pairs n) (replicate n (replicate n (replicate F 0))))"
proof -
  have F: "shape_last S = F"
    using sh by (simp add: shape_last_def)
  let ?g = "\<lambda>i j X. set2 (set2 X i j (calc (cells S ! i ! j))) j i (calc (map cnj (cells S ! i ! j)))"
  let ?body = "\<lambda>i j X.
          bind_res (getitem2 S i j) (\<lambda>sij.
          bind_res (fit_bins F (calc sij)) (\<lambda>v.
          bind_res (getitem2 S i j) (\<lambda>sij'.
          bind_res (fit_bins F (calc (map cnj sij'))) (\<lambda>w.
            Inr ((X[i := (X ! i)[j := v]])[j := ((X[i := (X ! i)[j := v]]) ! j)[i := w]])))))"
  have body: "?body i j X = Inr (?g i j X)" if "j \<in> set [i..<n]" for i j X
  proof -
    from that have j: "j < n" and i: "i < n" by simp_all
    have "length (calc (cells S ! i ! j)) = F" "length (calc (map cnj (cells S ! i ! j))) = F"
      using len well_shaped_nth [OF ws sh i j] by simp_all
    then show ?thesis
      using getitem2_in_range [OF sh i j]
      by (simp add: bind_res_def fit_bins_same set2_def)
  qed
  have inner: "for_loop [i..<n] (?body i) X = Inr (fold (?g i) [i..<n] X)" for i X
    by (rule for_loop_all_Inr) (rule body)
  have "for_loop [0..<n] (\<lambda>i. for_loop [i..<n] (?body i)) X
          = Inr (fold (\<lambda>i. fold (?g i) [i..<n]) [0..<n] X)" for X
    by (rule for_loop_all_Inr) (rule inner)
  also have "fold (\<lambda>i. fold (?g i) [i..<n]) [0..<n] X
          = fold (\<lambda>(i, j). ?g i j) (upper_pairs n) X" for X
    unfolding upper_pairs_def by (rule fold_nested_pairs)
  finally show ?thesis
    unfolding phase_def Let_def F .
qed

lemma map_cnj_real: "\<forall>z \<in> set v. Im z = 0 \<Longrightarrow> map cnj v = v"
  by (rule map_idI) (simp add: complex_eq_iff)


subsection \<open>Phase\<close>

text \<open>
  C7.  The spectrum is an \<open>n\<close> by \<open>n\<close> array of vectors of \<open>F\<close> bins and the phase-angle
  primitive returns one angle per bin.  Then \<open>phase\<close> returns, and for every pair
  \<open>i \<le> j\<close> the cell \<open>phase[j][i]\<close> is the primitive applied to the conjugated
  cross-spectrum \<open>conj(spectrum[i][j])\<close>, not the negation of another cell; for \<open>i < j\<close>
  the cell \<open>phase[i][j]\<close> is the primitive applied to \<open>spectrum[i][j]\<close> itself.  On the
  diagonal the loop body stores both values into the one cell, the conjugated one last;
  the two are the same value whenever the auto-spectrum \<open>spectrum[i][i]\<close> is real, as a
  power spectrum is.
\<close>

theorem phase_from_conjugated_spectrum:
  assumes ws: "well_shaped spectrum" and sh: "shape3 spectrum = (n, n, F)"
    and len: "\<forall>x. length (calc x) = length x"
  shows "\<exists>P. phase calc spectrum n = Inr P \<and>
     (\<forall>i j. i \<le> j \<and> j < n \<longrightarrow>
        P ! j ! i = calc (map cnj (cells spectrum ! i ! j)) \<and>
        (i < j \<or> (\<forall>z \<in> set (cells spectrum ! i ! i). Im z = 0) \<longrightarrow>
           P ! i ! j = calc (cells spectrum ! i ! j)))"
proof -
  let ?v = "\<lambda>i j. calc (cells spectrum ! i ! j)"
  let ?w = "\<lambda>i j. calc (map cnj (cells spectrum ! i ! j))"
  let ?P = "fold (\<lambda>(i, j) X. set2 (set2 X i j (?v i j)) j i (?w i j)) (upper_pairs n)
              (replicate n (replicate n (replicate F 0)))"
  have P: "phase calc spectrum n = Inr ?P"
    using ws sh len by (rule phase_eq)
  have upper: "\<forall>(i, j) \<in> set (upper_pairs n). i \<le> j \<and> j < n"
    by (simp add: set_upper_pairs)
  have cell: "?P ! r ! c = (if r < c then ?v r c else ?w c r)" if "r < n" "c < n" for r c
  proof -
    from that have "(min r c, max r c) \<in> set (upper_pairs n)"
      by (simp add: set_upper_pairs)
    then show ?thesis
      using nth_fold_set2_twice [OF grid_replicate [of n "replicate F 0"] upper that,
          where v = ?v and w = ?w]
      by simp
  qed
  have "?P ! j ! i = ?w i j \<and>
        (i < j \<or> (\<forall>z \<in> set (cells spectrum ! i ! i). Im z = 0) \<longrightarrow> ?P ! i ! j = ?v i j)"
    if "i \<le> j \<and> j < n" for i j
  proof -
    from that have i: "i < n" and j: "j < n" and ij: "i \<le> j" by simp_all
    have lower: "?P ! j ! i = ?w i j"
      using cell [OF j i] ij by simp
    have "?P ! i ! j = ?v i j" if "i < j"
      using cell [OF i j] that by simp
    moreover have "?P ! i ! j = ?v i j" if "\<not> i < j" "\<forall>z \<in> set (cells spectrum ! i ! i). Im z = 0"
    proof -
      from that(1) ij have "j = i" by simp
      with lower map_cnj_real [OF that(2)] show ?thesis by simp
    qed
    ultimately show ?thesis
      using lower by blast
  qed
  with P show ?thesis
    by blast
qed

theorem phase_from_conjugated_spectrum_witness:
  "well_shaped \<lparr>shape3 = (2, 2, 1), cells = [[[1], [\<i>]], [[- \<i>], [1]]]\<rparr>
   \<and> (\<exists>P. phase (map Im) \<lparr>shape3 = (2, 2, 1), cells = [[[1], [\<i>]], [[- \<i>], [1]]]\<rparr> 2 = Inr P
          \<and> P ! 0 ! 1 = [1] \<and> P ! 1 ! 0 = [- 1] \<and> P ! 0 ! 0 = [0])"
proof -
  let ?S = "\<lparr>shape3 = (2, 2, 1), cells = [[[1], [\<i>]], [[- \<i>], [1]]]\<rparr>"
  have ws: "well_shaped ?S"
    by (simp add: well_shaped_def)
  have sh: "shape3 ?S = (2, 2, 1)"
    by simp
  have len: "\<forall>x. length (map Im x) = length x"
    by simp
  from phase_from_conjugated_spectrum [OF ws sh len]
  obtain P where P: "phase (map Im) ?S 2 = Inr P"
    and cellwise: "\<And>i j. i \<le> j \<and> j < 2 \<Longrightarrow>
        P ! j ! i = map Im (map cnj (cells ?S ! i ! j)) \<and>
        (i < j \<or> (\<forall>z \<in> set (cells ?S ! i ! i). Im z = 0) \<longrightarrow>
           P ! i ! j = map Im (cells ?S ! i ! j))"
    by blast
  from cellwise [of 0 1] have "P ! 0 ! 1 = [1]" "P ! 1 ! 0 = [- 1]"
    by simp_all
  moreover from cellwise [of 0 0] have "P ! 0 ! 0 = [0]"
    by simp
  ultimately show ?thesis
    using ws P by blast
qed

subsection \<open>Coherence and coherency\<close>

text \<open>
  C1.  The spectrum is an \<open>n\<close> by \<open>n\<close> array of vectors of \<open>F\<close> bins and the pairwise
  estimators return one value per bin.  Then \<open>coherency\<close> and \<open>coherence\<close> return, each
  having invoked its estimator at exactly the pairs \<open>(i, j)\<close> with \<open>i \<le> j < n\<close>, once
  each and in loop order, \<open>n * (n + 1) / 2\<close> invocations.  For \<open>i \<le> j\<close> the cell \<open>[i][j]\<close>
  is the estimator's value; \<open>coherence[j][i]\<close> equals \<open>coherence[i][j]\<close>; and for \<open>i < j\<close>
  the cell \<open>coherency[j][i]\<close> is the conjugate of \<open>coherency[i][j]\<close>, bin by bin: the lower
  triangle is the mirror of the upper one.  The mirroring leaves the diagonal alone, so
  a diagonal cell of \<open>coherency\<close> is its own conjugate exactly when the estimator's value
  for a channel with itself is real.
\<close>

theorem coherence_coherency_symmetric:
  assumes ws: "well_shaped spectrum" and sh: "shape3 spectrum = (n, n, F)"
    and len_y: "\<forall>x a b. length (coherency_calculate x a b) = length x"
    and len_c: "\<forall>x a b. length (coherence_calculate x a b) = length x"
  shows "\<exists>Y C pairs.
     coherency coherency_calculate spectrum n = Inr (Y, pairs) \<and>
     coherence coherence_calculate spectrum n = Inr (C, pairs) \<and>
     pairs = concat (map (\<lambda>i. map (Pair i) [i..<n]) [0..<n]) \<and>
     length pairs = n * (n + 1) div 2 \<and>
     (\<forall>i j. i \<le> j \<and> j < n \<longrightarrow>
        Y ! i ! j = coherency_calculate (cells spectrum ! i ! j) (cells spectrum ! i ! i)
                      (cells spectrum ! j ! j) \<and>
        C ! i ! j = map Re (coherence_calculate (cells spectrum ! i ! j) (cells spectrum ! i ! i)
                              (cells spectrum ! j ! j)) \<and>
        C ! j ! i = C ! i ! j \<and>
        (i < j \<or> (\<forall>z \<in> set (Y ! i ! i). Im z = 0) \<longrightarrow> Y ! j ! i = map cnj (Y ! i ! j)))"
proof -
  let ?vy = "\<lambda>i j. coherency_calculate (cells spectrum ! i ! j) (cells spectrum ! i ! i)
                      (cells spectrum ! j ! j)"
  let ?vc = "\<lambda>i j. map Re (coherence_calculate (cells spectrum ! i ! j) (cells spectrum ! i ! i)
                              (cells spectrum ! j ! j))"
  let ?UY = "fold (\<lambda>(i, j) X. set2 X i j (?vy i j)) (upper_pairs n)
               (replicate n (replicate n (replicate F 0)))"
  let ?UC = "fold (\<lambda>(i, j) X. set2 X i j (?vc i j)) (upper_pairs n)
               (replicate n (replicate n (replicate F 0)))"
  let ?Y = "mirror_lower (map cnj) n ?UY"
  let ?C = "mirror_lower np_conj_float n ?UC"
  have Y: "coherency coherency_calculate spectrum n = Inr (?Y, upper_pairs n)"
    using ws sh len_y by (rule coherency_eq)
  have C: "coherence coherence_calculate spectrum n = Inr (?C, upper_pairs n)"
    using ws sh len_c by (rule coherence_eq)
  have in_range: "\<forall>(i, j) \<in> set (upper_pairs n). i < n \<and> j < n"
    by (auto simp: set_upper_pairs)
  have gY: "grid n ?UY" and gC: "grid n ?UC"
    by (rule grid_fold_set2, rule grid_replicate)+
  have UY: "?UY ! r ! c = ?vy r c" if "r \<le> c" "c < n" for r c
  proof -
    from that have "r < n" by simp
    from nth_fold_set2 [OF grid_replicate [of n "replicate F 0"] in_range this that(2),
        where v = ?vy] that
    show ?thesis by (simp add: set_upper_pairs)
  qed
  have UC: "?UC ! r ! c = ?vc r c" if "r \<le> c" "c < n" for r c
  proof -
    from that have "r < n" by simp
    from nth_fold_set2 [OF grid_replicate [of n "replicate F 0"] in_range this that(2),
        where v = ?vc] that
    show ?thesis by (simp add: set_upper_pairs)
  qed
  have "?Y ! i ! j = ?vy i j \<and> ?C ! i ! j = ?vc i j \<and> ?C ! j ! i = ?C ! i ! j \<and>
        (i < j \<or> (\<forall>z \<in> set (?Y ! i ! i). Im z = 0) \<longrightarrow> ?Y ! j ! i = map cnj (?Y ! i ! j))"
    if "i \<le> j \<and> j < n" for i j
  proof -
    from that have i: "i < n" and j: "j < n" and ij: "i \<le> j" by simp_all
    have Yij: "?Y ! i ! j = ?UY ! i ! j"
      using nth_mirror_lower [OF gY i j, of "map cnj"] ij by simp
    have Cij: "?C ! i ! j = ?UC ! i ! j"
      using nth_mirror_lower [OF gC i j, of np_conj_float] ij by simp
    have Cji: "?C ! j ! i = ?C ! i ! j"
      using nth_mirror_lower [OF gC j i, of np_conj_float] Cij ij
      by (cases "i = j") (simp_all add: np_conj_float_def)
    have Yji: "?Y ! j ! i = map cnj (?Y ! i ! j)" if "i < j"
      using nth_mirror_lower [OF gY j i, of "map cnj"] Yij that by simp
    have Yii: "?Y ! j ! i = map cnj (?Y ! i ! j)" if "\<not> i < j" "\<forall>z \<in> set (?Y ! i ! i). Im z = 0"
    proof -
      from that(1) ij have "j = i" by simp
      with map_cnj_real [OF that(2)] show ?thesis by simp
    qed
    have a: "?Y ! i ! j = ?vy i j"
      using Yij UY [OF ij j] by (rule trans)
    have b: "?C ! i ! j = ?vc i j"
      using Cij UC [OF ij j] by (rule trans)
    from Yji Yii have c: "i < j \<or> (\<forall>z \<in> set (?Y ! i ! i). Im z = 0) \<longrightarrow> ?Y ! j ! i = map cnj (?Y ! i ! j)"
      by blast
    from a b Cji c show ?thesis
      by (intro conjI)
  qed
  moreover have "upper_pairs n = concat (map (\<lambda>i. map (Pair i) [i..<n]) [0..<n])"
    by (simp add: upper_pairs_def)
  moreover have "length (upper_pairs n) = n * (n + 1) div 2"
    by (rule length_upper_pairs)
  ultimately show ?thesis
    using Y C by blast
qed

theorem coherence_coherency_symmetric_witness:
  "well_shaped \<lparr>shape3 = (2, 2, 1), cells = [[[1], [\<i>]], [[- \<i>], [1]]]\<rparr>
   \<and> (\<exists>Y C pairs.
        coherency (\<lambda>x a b. x) \<lparr>shape3 = (2, 2, 1), cells = [[[1], [\<i>]], [[- \<i>], [1]]]\<rparr> 2
          = Inr (Y, pairs)
        \<and> coherence (\<lambda>x a b. map (\<lambda>z. z * cnj z) x)
            \<lparr>shape3 = (2, 2, 1), cells = [[[1], [\<i>]], [[- \<i>], [1]]]\<rparr> 2 = Inr (C, pairs)
        \<and> length pairs = 3
        \<and> Y ! 0 ! 1 = [\<i>] \<and> Y ! 1 ! 0 = [- \<i>] \<and> C ! 0 ! 1 = [1] \<and> C ! 1 ! 0 = [1])"
proof -
  let ?S = "\<lparr>shape3 = (2, 2, 1), cells = [[[1], [\<i>]], [[- \<i>], [1]]]\<rparr>"
  let ?ey = "\<lambda>(x :: cvec) (a :: cvec) (b :: cvec). x"
  let ?ec = "\<lambda>(x :: cvec) (a :: cvec) (b :: cvec). map (\<lambda>z. z * cnj z) x"
  have ws: "well_shaped ?S"
    by (simp add: well_shaped_def)
  have sh: "shape3 ?S = (2, 2, 1)"
    by simp
  have len_y: "\<forall>x a b. length (?ey x a b) = length x"
    by simp
  have len_c: "\<forall>x a b. length (?ec x a b) = length x"
    by simp
  from coherence_coherency_symmetric [OF ws sh len_y len_c]
  obtain Y C pairs where Y: "coherency ?ey ?S 2 = Inr (Y, pairs)"
    and C: "coherence ?ec ?S 2 = Inr (C, pairs)"
    and count: "length pairs = 2 * (2 + 1) div 2"
    and cellwise: "\<And>i j. i \<le> j \<and> j < 2 \<Longrightarrow>
        Y ! i ! j = ?ey (cells ?S ! i ! j) (cells ?S ! i ! i) (cells ?S ! j ! j) \<and>
        C ! i ! j = map Re (?ec (cells ?S ! i ! j) (cells ?S ! i ! i) (cells ?S ! j ! j)) \<and>
        C ! j ! i = C ! i ! j \<and>
        (i < j \<or> (\<forall>z \<in> set (Y ! i ! i). Im z = 0) \<longrightarrow> Y ! j ! i = map cnj (Y ! i ! j))"
    by blast
  from cellwise [of 0 1]
  have "Y ! 0 ! 1 = [\<i>]" "Y ! 1 ! 0 = [- \<i>]" "C ! 0 ! 1 = [1]" "C ! 1 ! 0 = [1]"
    by simp_all
  moreover from count have "length pairs = 3"
    by simp
  ultimately show ?thesis
    using ws Y C by blast
qed


subsection \<open>UniformTime\<close>
















end
